theory Spec2Isabelle
  imports Main
begin

section \<open>Data model of the reads bot\<close>

text \<open>
  The conversation states, the tags and the sectors are the string-literal unions
  \<^verbatim>\<open>ReadsState\<close>, \<^verbatim>\<open>ReadsTag\<close> and \<^verbatim>\<open>SectorSlug\<close> of the source.
\<close>

datatype ReadsState = await_description | await_title | await_url | build | none

datatype ReadsTag = reads | tweets | media | news | podcast | other

datatype SectorSlug = general | finance | infrastructure | macro_markets | metaverse

record ReadsItem =
  title :: string
  link :: string
  description :: string
  image_url :: string
  taxonomy :: "SectorSlug list"
  tags :: "ReadsTag list"

record ReadsSession =
  state :: ReadsState
  item :: ReadsItem

text \<open>\<^verbatim>\<open>UrlMetadata\<close>: every field is optional.\<close>

record UrlMetadata =
  md_title :: "string option"
  md_description :: "string option"
  md_image :: "string option"

definition createNewItem :: ReadsItem where
  "createNewItem =
     \<lparr>title = '''', link = '''', description = '''', image_url = '''', taxonomy = [], tags = []\<rparr>"

definition createDefaultSession :: ReadsSession where
  "createDefaultSession = \<lparr>state = none, item = createNewItem\<rparr>"

text \<open>Exceptions carry a message; the handlers dispatch on \<^verbatim>\<open>e.message\<close>.\<close>

datatype exn = Error string | TypeError string | SyntaxError string

fun message :: "exn \<Rightarrow> string" where
  "message (Error m) = m"
| "message (TypeError m) = m"
| "message (SyntaxError m) = m"

definition ERROR_UNAUTHORIZED :: string where
  "ERROR_UNAUTHORIZED = ''ERROR_UNAUTHORIZED''"

definition ERROR_UNKNOWN :: string where
  "ERROR_UNKNOWN = ''ERROR_UNKNOWN''"

definition ERROR_DUPLICATE_READ :: string where
  "ERROR_DUPLICATE_READ = ''ERROR_DUPLICATE_READ''"

definition OPENAI_ERROR :: string where
  "OPENAI_ERROR = ''OPENAI_ERROR''"

text \<open>The option tables: slug and label of every type and of every sector.\<close>

definition types :: "(ReadsTag \<times> string) list" where
  "types = [(reads, ''Reads''), (media, ''Media''), (tweets, ''Tweets''),
            (news, ''News''), (podcast, ''Podcast''), (other, ''Other'')]"

definition sectors :: "(SectorSlug \<times> string) list" where
  "sectors = [(general, ''General''), (finance, ''DeFi''),
              (infrastructure, ''Infrastructure''), (macro_markets, ''Macro & Markets''),
              (metaverse, ''NFTs & Gaming'')]"

text \<open>
  \<^verbatim>\<open>defaultTagsForDomain\<close> is an object literal; \<^verbatim>\<open>Object.keys\<close> walks it in the
  order the keys are written, so it is an association list.
\<close>

definition defaultTagsForDomain :: "(string \<times> ReadsTag list) list" where
  "defaultTagsForDomain =
     [(''bloomberg.com'', [news]), (''medium.com'', [reads]), (''spotify.com'', [podcast]),
      (''x.com'', [tweets]), (''youtube.com'', [media])]"

section \<open>String primitives of the host language\<close>

text \<open>\<^verbatim>\<open>s.startsWith(p)\<close>\<close>

definition startsWith :: "string \<Rightarrow> string \<Rightarrow> bool" where
  "startsWith p s = (take (length p) s = p)"

text \<open>\<^verbatim>\<open>s.includes(p)\<close>: \<open>p\<close> occurs in \<open>s\<close> as a contiguous block.\<close>

fun str_includes :: "string \<Rightarrow> string \<Rightarrow> bool" where
  "str_includes p [] = (p = [])"
| "str_includes p (c # cs) = (startsWith p (c # cs) \<or> str_includes p cs)"

text \<open>
  \<^verbatim>\<open>s.replace(pat, rep)\<close> with a string pattern: only the first occurrence is replaced
  (none of the replacement strings used here contains a dollar sign).
\<close>

fun replace :: "string \<Rightarrow> string \<Rightarrow> string \<Rightarrow> string" where
  "replace pat rep [] = (if pat = [] then rep else [])"
| "replace pat rep (c # cs) =
     (if startsWith pat (c # cs) then rep @ drop (length pat) (c # cs)
      else c # replace pat rep cs)"

section \<open>The environment\<close>

text \<open>
  Everything the bot reaches outside the repository is an input of the model: the
  platform's \<^verbatim>\<open>URL\<close> constructor (\<open>None\<close> when it throws), the three services behind
  \<^verbatim>\<open>fetch\<close> and the completion service. A \<^verbatim>\<open>fetch\<close> either rejects or yields a
  response with a status and a body; the body is \<open>None\<close> when reading it as JSON of the
  expected shape fails.
\<close>

record URL =
  origin :: string
  pathname :: string

datatype 'a fetched = NetworkError | Response nat "'a option"

record world =
  new_URL :: "string \<Rightarrow> URL option"
  link_metadata :: "string \<Rightarrow> UrlMetadata fetched"
  list_items :: "string option list fetched"
  chat_completion :: "string \<Rightarrow> string option"
  create_read :: "ReadsItem \<Rightarrow> string option \<Rightarrow> unit fetched"

text \<open>
  \<open>link_metadata\<close> is the \<^verbatim>\<open>GET\<close> of \<^verbatim>\<open>/api/v1/reads/link-metadata\<close> for a link;
  \<open>list_items\<close> is the \<^verbatim>\<open>GET\<close> of the first page (limit 50) of the reading list, each
  row reduced to its \<^verbatim>\<open>link\<close> (\<open>None\<close> when the row has no string link);
  \<open>chat_completion\<close> is the completion request for a link (\<open>None\<close> when anything in it
  throws); \<open>create_read\<close> is the \<^verbatim>\<open>POST\<close> of the item with the sender's user name.
\<close>

section \<open>URL normalisation\<close>

definition normalizeUrl :: "(string \<Rightarrow> URL option) \<Rightarrow> string \<Rightarrow> exn + string" where
  "normalizeUrl mkURL url =
     (let cleanUrl = (if \<not> startsWith ''http'' url then ''https://'' @ url else url);
          cleanUrl = replace ''http://'' ''https://'' cleanUrl;
          cleanUrl = replace ''vxtwitter.com'' ''x.com'' cleanUrl;
          cleanUrl = replace ''twitter.com'' ''x.com'' cleanUrl
      in if str_includes ''x.com'' cleanUrl
         then (case mkURL cleanUrl of
                 None \<Rightarrow> Inl (TypeError ''Invalid URL'')
               | Some u \<Rightarrow> Inr (origin u @ pathname u))
         else Inr cleanUrl)"

text \<open>
  A model of the platform's \<^verbatim>\<open>URL\<close> constructor on a fragment of its inputs, used
  only to evaluate \<open>normalizeUrl\<close> at concrete strings. A string without a colon has
  no scheme and is rejected. A string \<^verbatim>\<open>https://host/path?query#fragment\<close> whose host is
  made of lower-case letters and dots and whose path is made of letters, digits, slashes,
  underscores and hyphens is split at the first slash, question mark or hash; an empty
  path reads as a single slash. On every other string this function answers \<open>None\<close>
  without claiming that the platform does: the general theorems below hold for every
  constructor, and the closed ones evaluate this one inside the fragment only.
\<close>

definition host_char :: "char \<Rightarrow> bool" where
  "host_char c = (c \<in> set ''abcdefghijklmnopqrstuvwxyz.'')"

definition path_char :: "char \<Rightarrow> bool" where
  "path_char c =
     (c \<in> set ''abcdefghijklmnopqrstuvwxyzABCDEFGHIJKLMNOPQRSTUVWXYZ0123456789/_-'')"

definition simple_URL :: "string \<Rightarrow> URL option" where
  "simple_URL s =
     (if CHR '':'' \<notin> set s then None
      else if startsWith ''https://'' s then
        (let rest = drop 8 s;
             host = takeWhile (\<lambda>c. c \<notin> set ''/?#'') rest;
             path = takeWhile (\<lambda>c. c \<notin> set ''?#'') (dropWhile (\<lambda>c. c \<notin> set ''/?#'') rest)
         in if host \<noteq> [] \<and> list_all host_char host \<and> hd host \<noteq> CHR ''.''
               \<and> last host \<noteq> CHR ''.'' \<and> \<not> str_includes ''..'' host \<and> list_all path_char path
            then Some \<lparr>origin = ''https://'' @ host,
                       pathname = (if path = [] then ''/'' else path)\<rparr>
            else None)
      else None)"

section \<open>Replies and the handler context\<close>

text \<open>
  What the bot sends: a plain text, the preview of the session (the text of
  \<^verbatim>\<open>previewText\<close>, kept symbolic: it is rendered from the session and no property below
  reads it), a text with an inline keyboard (rows of buttons, each a label and its
  callback data), or the dump of the session that the \<^verbatim>\<open>state\<close> trigger prints.
\<close>

datatype sent_message =
  Plain string
  | Preview ReadsSession
  | Keyboard string "(string \<times> string) list list"
  | Dump ReadsSession

text \<open>
  The part of the framework's context the handlers use: the session, the callback query
  (present only when the update is a button press; its sender may have no user name) and
  the replies sent so far. A handler mutates the context; here it returns the new one.
\<close>

record CallbackQuery =
  from_username :: "string option"

record ReadsContext =
  session :: ReadsSession
  callbackQuery :: "CallbackQuery option"
  sent :: "sent_message list"

definition reply :: "sent_message \<Rightarrow> ReadsContext \<Rightarrow> ReadsContext" where
  "reply m ctx = ctx\<lparr>sent := sent ctx @ [m]\<rparr>"

definition set_state :: "ReadsState \<Rightarrow> ReadsContext \<Rightarrow> ReadsContext" where
  "set_state st ctx = ctx\<lparr>session := (session ctx)\<lparr>state := st\<rparr>\<rparr>"

definition set_item :: "ReadsItem \<Rightarrow> ReadsContext \<Rightarrow> ReadsContext" where
  "set_item it ctx = ctx\<lparr>session := (session ctx)\<lparr>item := it\<rparr>\<rparr>"

definition the_item :: "ReadsContext \<Rightarrow> ReadsItem" where
  "the_item ctx = item (session ctx)"

section \<open>Utilities\<close>

definition ensureNonDuplicateLink :: "world \<Rightarrow> string \<Rightarrow> exn option" where
  "ensureNonDuplicateLink w lnk =
     (case list_items w of
        NetworkError \<Rightarrow> Some (TypeError ''fetch failed'')
      | Response status body \<Rightarrow>
          (case body of
             None \<Rightarrow> Some (SyntaxError ''unreadable response'')
           | Some rows \<Rightarrow>
               (let matches = filter (\<lambda>r. r = Some lnk) rows
                in if length matches \<noteq> 0 then Some (Error ERROR_DUPLICATE_READ) else None)))"

definition fetchUrlMetadata :: "world \<Rightarrow> string \<Rightarrow> exn + UrlMetadata" where
  "fetchUrlMetadata w url =
     (case link_metadata w url of
        NetworkError \<Rightarrow> Inl (TypeError ''fetch failed'')
      | Response status body \<Rightarrow>
          if status = 200
          then (case body of
                  None \<Rightarrow> Inl (SyntaxError ''unreadable response'')
                | Some metadata \<Rightarrow> Inr metadata)
          else Inl (Error ''fetch url metadata error''))"

definition fetchUrlSummary :: "world \<Rightarrow> string \<Rightarrow> exn + string" where
  "fetchUrlSummary w url =
     (case chat_completion w url of
        None \<Rightarrow> Inl (Error OPENAI_ERROR)
      | Some content \<Rightarrow> Inr content)"

definition ensureLinkSet ::
  "ReadsContext \<Rightarrow> (ReadsContext \<Rightarrow> ReadsContext) \<Rightarrow> ReadsContext" where
  "ensureLinkSet ctx callback =
     (if link (the_item ctx) = [] then reply (Plain ''send me a link first'') ctx
      else callback ctx)"

definition defaultTagsForUrl :: "string \<Rightarrow> ReadsTag list" where
  "defaultTagsForUrl url =
     (case find (\<lambda>domain. str_includes domain url) (map fst defaultTagsForDomain) of
        Some domain \<Rightarrow> (case map_of defaultTagsForDomain domain of Some t \<Rightarrow> t | None \<Rightarrow> [])
      | None \<Rightarrow> [])"

section \<open>Telegram helpers\<close>

text \<open>The slugs as they are written into the callback data of the buttons.\<close>

fun tag_slug :: "ReadsTag \<Rightarrow> string" where
  "tag_slug reads = ''reads''"
| "tag_slug tweets = ''tweets''"
| "tag_slug media = ''media''"
| "tag_slug news = ''news''"
| "tag_slug podcast = ''podcast''"
| "tag_slug other = ''other''"

fun sector_slug :: "SectorSlug \<Rightarrow> string" where
  "sector_slug general = ''general''"
| "sector_slug finance = ''finance''"
| "sector_slug infrastructure = ''infrastructure''"
| "sector_slug macro_markets = ''macro-markets''"
| "sector_slug metaverse = ''metaverse''"

definition displayMenu :: "ReadsContext \<Rightarrow> ReadsContext" where
  "displayMenu ctx =
     reply (Keyboard ''What would you like to do?''
        [[(''Set Title'', ''settitle''), (''Set Description'', ''setdescription'')],
         [(''Set Type'', ''settype''), (''Set Sector'', ''setsector'')],
         [(''Start Over'', ''new''), (''Help'', ''help'')],
         [(''Publish It!'', ''publish'')]]) ctx"

definition replyWithPreview :: "ReadsContext \<Rightarrow> ReadsContext" where
  "replyWithPreview ctx = displayMenu (reply (Preview (session ctx)) ctx)"

text \<open>The loop of \<^verbatim>\<open>displayOptionMenu\<close> cuts the options into rows of two.\<close>

fun button_rows :: "'a list \<Rightarrow> 'a list list" where
  "button_rows [] = []"
| "button_rows [x] = [[x]]"
| "button_rows (x # y # rest) = [x, y] # button_rows rest"

definition displayOptionMenu ::
  "ReadsContext \<Rightarrow> (string \<times> string) list \<Rightarrow> string \<Rightarrow> string \<Rightarrow> ReadsContext" where
  "displayOptionMenu ctx options command option =
     reply (Keyboard (''Select a '' @ option @ '': '')
        (map (map (\<lambda>(slug, label). (label, command @ ''_'' @ slug))) (button_rows options)))
       ctx"

definition resetState :: "ReadsContext \<Rightarrow> ReadsContext" where
  "resetState ctx = set_item createNewItem (set_state none ctx)"

section \<open>Handlers\<close>

text \<open>
  The handlers pass their body to \<^verbatim>\<open>ensureLinkSet\<close> as a callback; the model runs the
  callback to its end before the handler returns, one update at a time.
\<close>

definition handleNew :: "ReadsContext \<Rightarrow> ReadsContext" where
  "handleNew ctx = reply (Plain ''what url do you want post?'') (set_state await_url (resetState ctx))"

text \<open>
  \<^verbatim>\<open>postRead\<close> reads the sender from \<^verbatim>\<open>ctx.callbackQuery.from.username\<close> before anything
  else, which throws when the update carries no callback query. The second component is
  the exception it ends with, if any.
\<close>

definition postRead :: "world \<Rightarrow> ReadsContext \<Rightarrow> ReadsContext \<times> exn option" where
  "postRead w ctx =
     (case callbackQuery ctx of
        None \<Rightarrow> (ctx, Some (TypeError ''Cannot read properties of undefined''))
      | Some q \<Rightarrow>
          (let tg_username = from_username q;
               ctx = reply (Plain ''Attempting to publish...'') ctx
           in case create_read w (the_item ctx) tg_username of
                NetworkError \<Rightarrow> (ctx, Some (TypeError ''fetch failed''))
              | Response status body \<Rightarrow>
                  if status = 403 then (ctx, Some (Error ERROR_UNAUTHORIZED))
                  else if status = 409 then (ctx, Some (Error ERROR_DUPLICATE_READ))
                  else if status > 201 then (ctx, Some (Error ERROR_UNKNOWN))
                  else (ctx, None)))"

definition handlePost :: "world \<Rightarrow> ReadsContext \<Rightarrow> ReadsContext" where
  "handlePost w ctx =
     ensureLinkSet ctx (\<lambda>ctx.
       case postRead w ctx of
         (ctx, None) \<Rightarrow>
           reply (Plain ''Item has been published. Paste another URL to start over.'')
             (resetState ctx)
       | (ctx, Some e) \<Rightarrow>
           if message e = ERROR_UNAUTHORIZED
           then reply (Plain ''Unauthorized: reach out to engineering for assistance.'') ctx
           else if message e = ERROR_DUPLICATE_READ
           then resetState (reply (Plain ''Oops, this item was already added recently.'') ctx)
           else reply (Plain
             ''Oops, something went wrong - try to /publish again or start over with /new'') ctx)"

definition helpText :: string where
  "helpText =
     [CHR 0x0A]
     @ ''For questions or feedback, please post in the Delphi Engineering telegram channel:''
     @ [CHR 0x0A, CHR 0x0A] @ ''[ENGINEERING] Delphi Engineering'' @ [CHR 0x0A]"

definition handleHelp :: "ReadsContext \<Rightarrow> ReadsContext" where
  "handleHelp ctx = ensureLinkSet ctx (\<lambda>ctx. reply (Plain helpText) ctx)"

definition handleSetDescription :: "ReadsContext \<Rightarrow> ReadsContext" where
  "handleSetDescription ctx =
     ensureLinkSet ctx (\<lambda>ctx.
       reply (Plain ''what description do you want? type \"none\" for no description'')
         (set_state await_description ctx))"

definition handleSetOption ::
  "ReadsContext \<Rightarrow> (string \<times> string) list \<Rightarrow> string \<Rightarrow> string \<Rightarrow> ReadsContext" where
  "handleSetOption ctx options command option =
     ensureLinkSet ctx (\<lambda>ctx. displayOptionMenu ctx options command option)"

definition handleSetTaxonomy :: "ReadsContext \<Rightarrow> ReadsContext" where
  "handleSetTaxonomy ctx =
     handleSetOption ctx (map (\<lambda>(slug, label). (sector_slug slug, label)) sectors)
       ''setsector'' ''sector''"

definition handleSetTag :: "ReadsContext \<Rightarrow> ReadsContext" where
  "handleSetTag ctx =
     handleSetOption ctx (map (\<lambda>(slug, label). (tag_slug slug, label)) types)
       ''settype'' ''type''"

definition handleSetTitle :: "ReadsContext \<Rightarrow> ReadsContext" where
  "handleSetTitle ctx =
     ensureLinkSet ctx (\<lambda>ctx.
       reply (Plain ''what title do you want?'') (set_state await_title ctx))"

definition nextState :: "ReadsContext \<Rightarrow> ReadsContext" where
  "nextState ctx =
     (if state (session ctx) = build then
        (if title (the_item ctx) = [] then handleSetTitle ctx
         else if length (taxonomy (the_item ctx)) < 1 then handleSetTaxonomy ctx
         else if length (tags (the_item ctx)) < 1 then handleSetTag ctx
         else replyWithPreview ctx)
      else ctx)"

definition nextBuildState :: "ReadsContext \<Rightarrow> ReadsContext" where
  "nextBuildState ctx = nextState (set_state build ctx)"

section \<open>Update handlers\<close>

definition handleUpdateDescription :: "string \<Rightarrow> ReadsContext \<Rightarrow> ReadsContext" where
  "handleUpdateDescription descr ctx =
     (if length descr > 500
      then handleSetDescription (reply (Plain ''sorry, that description too long'') ctx)
      else nextBuildState
             (set_item ((the_item ctx)\<lparr>description := (if descr = ''none'' then [] else descr)\<rparr>)
                ctx))"

definition handleUpdateTitle :: "string \<Rightarrow> ReadsContext \<Rightarrow> ReadsContext" where
  "handleUpdateTitle ttl ctx = nextBuildState (set_item ((the_item ctx)\<lparr>title := ttl\<rparr>) ctx)"

text \<open>
  \<^verbatim>\<open>handleUpdateUrl\<close>. The normaliser runs outside the \<^verbatim>\<open>try\<close>, so its exception
  leaves the handler (second component); everything thrown inside the \<^verbatim>\<open>try\<close> is
  caught. Inside the \<^verbatim>\<open>try\<close> the draft is written only after both requests returned.
\<close>

definition handleUpdateUrl :: "world \<Rightarrow> string \<Rightarrow> ReadsContext \<Rightarrow> ReadsContext \<times> exn option" where
  "handleUpdateUrl w url ctx =
     (let ctx = resetState ctx;
          ctx = reply (Plain ''fetching that url, hang on a sec...'') ctx
      in case normalizeUrl (new_URL w) url of
           Inl e \<Rightarrow> (ctx, Some e)
         | Inr cleanUrl \<Rightarrow>
            (let ctx = set_item ((the_item ctx)\<lparr>link := cleanUrl\<rparr>) ctx;
                 attempt =
                   (case fetchUrlMetadata w cleanUrl of
                      Inl e \<Rightarrow> Inl e
                    | Inr metadata \<Rightarrow>
                       (case ensureNonDuplicateLink w cleanUrl of
                          Some e \<Rightarrow> Inl e
                        | None \<Rightarrow>
                           Inr (set_item ((the_item ctx)
                             \<lparr>title := (case md_title metadata of Some t \<Rightarrow> t | None \<Rightarrow> []),
                              tags := defaultTagsForUrl cleanUrl,
                              description :=
                                (case md_description metadata of
                                   Some d \<Rightarrow> if d \<noteq> [] \<and> length d > 500
                                              then take 497 d @ ''...'' else d
                                 | None \<Rightarrow> []),
                              image_url := (case md_image metadata of Some i \<Rightarrow> i | None \<Rightarrow> [])\<rparr>)
                             ctx)))
             in case attempt of
                  Inr ctx \<Rightarrow> (nextState (set_state build ctx), None)
                | Inl e \<Rightarrow>
                   if message e = ERROR_DUPLICATE_READ
                   then (resetState
                           (reply (Plain ''Oops, this url was recently added already'') ctx), None)
                   else
                     (case fetchUrlSummary w cleanUrl of
                        Inr summary \<Rightarrow>
                          (nextState (set_state build
                             (set_item ((the_item ctx)
                                \<lparr>description := summary, title := cleanUrl, image_url := []\<rparr>) ctx)),
                           None)
                      | Inl err \<Rightarrow>
                          if message err = OPENAI_ERROR
                          then (handleNew
                                  (reply (Plain ''sorry, I could not fetch that url'') ctx), None)
                          else (nextState (set_state build ctx), None))))"

section \<open>Bot setup\<close>

text \<open>
  The updates as the framework classifies them: a command, a button press (its callback
  data is the name of a command, or \<^verbatim>\<open>setsector_\<close>/\<^verbatim>\<open>settype_\<close> followed by a slug) or
  any other text. The handlers are tried in the order \<^verbatim>\<open>readsBot\<close> registers them, and
  the first one that matches ends the dispatch. Every command has a handler; every one
  but preview also has a button action, so a press that carries \<^verbatim>\<open>preview\<close> finds no
  handler and nothing happens. A typed command carries no callback query.
\<close>

datatype command =
  cmd_help | cmd_new | cmd_publish | cmd_preview | cmd_setdescription | cmd_settitle
  | cmd_settype | cmd_setsector

datatype action = named command | setsector_slug SectorSlug | settype_slug ReadsTag

datatype update = Command command | Action action CallbackQuery | Text string

definition on_text :: "world \<Rightarrow> string \<Rightarrow> ReadsContext \<Rightarrow> ReadsContext \<times> exn option" where
  "on_text w txt ctx =
     (if state (session ctx) = await_url then handleUpdateUrl w txt ctx
      else if state (session ctx) = await_description then (handleUpdateDescription txt ctx, None)
      else if state (session ctx) = await_title then (handleUpdateTitle txt ctx, None)
      else (reply (Plain ''paste a url to get started'') ctx, None))"

fun on_command :: "world \<Rightarrow> command \<Rightarrow> ReadsContext \<Rightarrow> ReadsContext" where
  "on_command w cmd_help ctx = handleHelp ctx"
| "on_command w cmd_new ctx = handleNew ctx"
| "on_command w cmd_publish ctx = handlePost w ctx"
| "on_command w cmd_preview ctx = replyWithPreview ctx"
| "on_command w cmd_setdescription ctx = handleSetDescription ctx"
| "on_command w cmd_settitle ctx = handleSetTitle ctx"
| "on_command w cmd_settype ctx = handleSetTag ctx"
| "on_command w cmd_setsector ctx = handleSetTaxonomy ctx"

fun on_action :: "world \<Rightarrow> action \<Rightarrow> ReadsContext \<Rightarrow> ReadsContext" where
  "on_action w (named cmd_help) ctx = handleHelp ctx"
| "on_action w (named cmd_new) ctx = handleNew ctx"
| "on_action w (named cmd_publish) ctx = handlePost w ctx"
| "on_action w (named cmd_preview) ctx = ctx"
| "on_action w (named cmd_setdescription) ctx = handleSetDescription ctx"
| "on_action w (named cmd_settitle) ctx = handleSetTitle ctx"
| "on_action w (named cmd_settype) ctx = handleSetTag ctx"
| "on_action w (named cmd_setsector) ctx = handleSetTaxonomy ctx"
| "on_action w (setsector_slug slug) ctx =
     nextState (set_item ((the_item ctx)\<lparr>taxonomy := [slug]\<rparr>) ctx)"
| "on_action w (settype_slug slug) ctx =
     nextState (set_item ((the_item ctx)\<lparr>tags := [slug]\<rparr>) ctx)"

fun readsBot :: "world \<Rightarrow> update \<Rightarrow> ReadsSession \<Rightarrow> ReadsContext \<times> exn option" where
  "readsBot w (Command c) s =
     (on_command w c \<lparr>session = s, callbackQuery = None, sent = []\<rparr>, None)"
| "readsBot w (Action a q) s =
     (on_action w a \<lparr>session = s, callbackQuery = Some q, sent = []\<rparr>, None)"
| "readsBot w (Text txt) s =
     (let ctx = \<lparr>session = s, callbackQuery = None, sent = []\<rparr>
      in if txt = ''state'' then (reply (Dump (session ctx)) ctx, None)
         else if startsWith ''http:'' txt \<or> startsWith ''https:'' txt
         then handleUpdateUrl w txt ctx
         else on_text w txt ctx)"

section \<open>The completeness rule, as the specification names it\<close>

text \<open>
  The specification speaks of a function \<^verbatim>\<open>nextMissingField\<close>; the source has no function
  of that name and makes the three tests inside \<^verbatim>\<open>nextState\<close>. This definition follows
  the specification's words (title, then sector, then tag); it is compared with
  \<open>nextState\<close> below.
\<close>

datatype missing_field = missing_title | missing_sector | missing_tag | missing_none

definition nextMissingField :: "ReadsItem \<Rightarrow> missing_field" where
  "nextMissingField d =
     (if title d = [] then missing_title
      else if taxonomy d = [] then missing_sector
      else if tags d = [] then missing_tag
      else missing_none)"

section \<open>Sample environments\<close>

text \<open>
  Environments for the closed theorems. In \<open>found_world\<close> the metadata service knows
  every link and the reading list is the given page; in \<open>fallback_world\<close> the metadata
  service answers 404 and the completion service answers the given result; in
  \<open>storage_world\<close> the list storage answers every post with the given response.
\<close>

definition found_world :: "UrlMetadata \<Rightarrow> string option list \<Rightarrow> world" where
  "found_world metadata rows =
     \<lparr>new_URL = simple_URL,
      link_metadata = (\<lambda>url. Response 200 (Some metadata)),
      list_items = Response 200 (Some rows),
      chat_completion = (\<lambda>url. None),
      create_read = (\<lambda>it user. Response 201 None)\<rparr>"

definition fallback_world :: "string option \<Rightarrow> world" where
  "fallback_world summary =
     \<lparr>new_URL = simple_URL,
      link_metadata = (\<lambda>url. Response 404 None),
      list_items = Response 200 (Some []),
      chat_completion = (\<lambda>url. summary),
      create_read = (\<lambda>it user. Response 201 None)\<rparr>"

definition storage_world :: "unit fetched \<Rightarrow> world" where
  "storage_world answer =
     \<lparr>new_URL = simple_URL,
      link_metadata = (\<lambda>url. Response 404 None),
      list_items = Response 200 (Some []),
      chat_completion = (\<lambda>url. None),
      create_read = (\<lambda>it user. answer)\<rparr>"

text \<open>A session waiting for a link, and a draft that has its link, title, sector and tag.\<close>

definition waiting_session :: ReadsSession where
  "waiting_session = \<lparr>state = await_url, item = createNewItem\<rparr>"

definition complete_item :: ReadsItem where
  "complete_item =
     \<lparr>title = ''A title'', link = ''https://bloomberg.com/a'', description = [],
      image_url = [], taxonomy = [finance], tags = [news]\<rparr>"

section \<open>An invariant of the session\<close>

text \<open>
  A draft without a link belongs to a session that is at rest or waits for a link. The
  invariant needs one fact about the platform: the text of a parsed URL is not empty.
\<close>

definition link_invariant :: "ReadsSession \<Rightarrow> bool" where
  "link_invariant s = (link (item s) = [] \<longrightarrow> state s = none \<or> state s = await_url)"

definition URL_nonempty :: "(string \<Rightarrow> URL option) \<Rightarrow> bool" where
  "URL_nonempty mkURL = (\<forall>s u. mkURL s = Some u \<longrightarrow> origin u @ pathname u \<noteq> [])"

section \<open>Facts about the string primitives\<close>

text \<open>
  \<open>startsWith\<close> is "is a prefix of", \<open>str_includes\<close> is "occurs somewhere in", and
  \<open>replace\<close> rewrites the first occurrence of the pattern and nothing else.
\<close>

lemma startsWith_iff: "startsWith p s \<longleftrightarrow> (\<exists>b. s = p @ b)"
proof
  assume "startsWith p s"
  then have "s = p @ drop (length p) s"
    unfolding startsWith_def by (metis append_take_drop_id)
  then show "\<exists>b. s = p @ b" ..
next
  assume "\<exists>b. s = p @ b"
  then show "startsWith p s" unfolding startsWith_def by auto
qed

lemma str_includes_iff: "str_includes p s \<longleftrightarrow> (\<exists>a b. s = a @ p @ b)"
proof (induction s)
  case Nil
  then show ?case by auto
next
  case (Cons c cs)
  show ?case
  proof
    assume "str_includes p (c # cs)"
    then consider "startsWith p (c # cs)" | "str_includes p cs" by auto
    then show "\<exists>a b. c # cs = a @ p @ b"
    proof cases
      case 1
      then obtain b where "c # cs = p @ b" using startsWith_iff by blast
      then have "c # cs = [] @ p @ b" by simp
      then show ?thesis by blast
    next
      case 2
      then obtain a b where "cs = a @ p @ b" using Cons.IH by blast
      then have "c # cs = (c # a) @ p @ b" by simp
      then show ?thesis by blast
    qed
  next
    assume "\<exists>a b. c # cs = a @ p @ b"
    then obtain a b where ab: "c # cs = a @ p @ b" by blast
    show "str_includes p (c # cs)"
    proof (cases a)
      case Nil
      then have "startsWith p (c # cs)" using ab startsWith_iff by auto
      then show ?thesis by simp
    next
      case (Cons x xs)
      then have "cs = xs @ p @ b" using ab by simp
      then have "str_includes p cs" using Cons.IH by blast
      then show ?thesis by simp
    qed
  qed
qed

lemma replace_absent: "\<not> str_includes pat s \<Longrightarrow> replace pat rep s = s"
  by (induction s) auto

lemma replace_startsWith: "startsWith pat s \<Longrightarrow> replace pat rep s = rep @ drop (length pat) s"
  by (cases s) (auto simp: startsWith_def)

lemma replace_prefix: "replace pat rep (pat @ b) = rep @ b"
  using replace_startsWith [of pat "pat @ b" rep] by (simp add: startsWith_def)

lemma startsWith_early:
  assumes "startsWith pat (x # xs @ pat @ b)"
  shows "str_includes pat ((x # xs) @ butlast pat)"
proof (cases "pat = []")
  case True
  then show ?thesis by (simp add: startsWith_def)
next
  case False
  then have split: "x # xs @ pat @ b = ((x # xs) @ butlast pat) @ (last pat # b)"
    by simp
  have len: "length pat \<le> length ((x # xs) @ butlast pat)"
    using False by simp
  have "take (length pat) (((x # xs) @ butlast pat) @ (last pat # b))
        = take (length pat) ((x # xs) @ butlast pat)"
    using len by (simp only: take_append) simp
  then have "startsWith pat ((x # xs) @ butlast pat)"
    using assms unfolding startsWith_def split by simp
  then show ?thesis by simp
qed

lemma replace_first:
  "\<not> str_includes pat (a @ butlast pat) \<Longrightarrow> replace pat rep (a @ pat @ b) = a @ rep @ b"
proof (induction a)
  case Nil
  then show ?case using replace_prefix by simp
next
  case (Cons x xs)
  have no_start: "\<not> startsWith pat (x # xs @ pat @ b)"
    using Cons.prems startsWith_early by blast
  have "\<not> str_includes pat (xs @ butlast pat)"
    using Cons.prems by simp
  then have "replace pat rep (xs @ pat @ b) = xs @ rep @ b"
    using Cons.IH by blast
  then show ?case using no_start by simp
qed

section \<open>The completeness rule\<close>

lemmas ctx_defs = reply_def set_state_def set_item_def the_item_def ensureLinkSet_def
  resetState_def

text \<open>
  C8. The next missing field is a function of the draft alone, tested in the fixed order
  title, sector, tag: a draft without a title reports the title whatever its other
  fields hold (a draft with only its sector set reports the title, not the tag), and
  nothing is missing exactly when title, sector and tag are all set. In the state
  \<open>build\<close>, \<open>nextState\<close> makes these very tests: it asks for the title, shows the
  sector menu, shows the type menu or shows the preview accordingly.
\<close>

theorem nextMissingField_order:
  "(title d = [] \<longrightarrow> nextMissingField d = missing_title)
   \<and> nextMissingField (createNewItem\<lparr>taxonomy := [sector]\<rparr>) = missing_title
   \<and> (nextMissingField d = missing_none \<longleftrightarrow> title d \<noteq> [] \<and> taxonomy d \<noteq> [] \<and> tags d \<noteq> [])
   \<and> (state (session ctx) = build \<longrightarrow>
        nextState ctx =
          (case nextMissingField (the_item ctx) of
             missing_title \<Rightarrow> handleSetTitle ctx
           | missing_sector \<Rightarrow> handleSetTaxonomy ctx
           | missing_tag \<Rightarrow> handleSetTag ctx
           | missing_none \<Rightarrow> replyWithPreview ctx))
   \<and> (state (session ctx) = build \<and> link (the_item ctx) \<noteq> [] \<and> title (the_item ctx) = [] \<longrightarrow>
        nextState ctx = reply (Plain ''what title do you want?'') (set_state await_title ctx))"
proof (intro conjI impI)
  show "nextMissingField d = missing_title" if "title d = []"
    using that by (simp add: nextMissingField_def)
  show "nextMissingField (createNewItem\<lparr>taxonomy := [sector]\<rparr>) = missing_title"
    by (simp add: nextMissingField_def createNewItem_def)
  show "nextMissingField d = missing_none \<longleftrightarrow> title d \<noteq> [] \<and> taxonomy d \<noteq> [] \<and> tags d \<noteq> []"
    by (simp add: nextMissingField_def)
  show "nextState ctx =
      (case nextMissingField (the_item ctx) of
         missing_title \<Rightarrow> handleSetTitle ctx
       | missing_sector \<Rightarrow> handleSetTaxonomy ctx
       | missing_tag \<Rightarrow> handleSetTag ctx
       | missing_none \<Rightarrow> replyWithPreview ctx)"
    if "state (session ctx) = build"
    using that by (simp add: nextMissingField_def nextState_def)
  show "nextState ctx = reply (Plain ''what title do you want?'') (set_state await_title ctx)"
    if "state (session ctx) = build \<and> link (the_item ctx) \<noteq> [] \<and> title (the_item ctx) = []"
    using that by (simp add: nextState_def handleSetTitle_def ensureLinkSet_def)
qed

theorem nextMissingField_order_witness:
  "title createNewItem = [] \<and> nextMissingField createNewItem = missing_title
   \<and> state (session \<lparr>session = \<lparr>state = build, item = complete_item\<rparr>,
                       callbackQuery = None, sent = []\<rparr>) = build
   \<and> nextMissingField complete_item = missing_none
   \<and> nextState \<lparr>session = \<lparr>state = build, item = complete_item\<rparr>,
                 callbackQuery = None, sent = []\<rparr>
       = replyWithPreview \<lparr>session = \<lparr>state = build, item = complete_item\<rparr>,
                           callbackQuery = None, sent = []\<rparr>
   \<and> link (complete_item\<lparr>title := []\<rparr>) \<noteq> [] \<and> title (complete_item\<lparr>title := []\<rparr>) = []
   \<and> nextState \<lparr>session = \<lparr>state = build, item = complete_item\<lparr>title := []\<rparr>\<rparr>,
                 callbackQuery = None, sent = []\<rparr>
       = \<lparr>session = \<lparr>state = await_title, item = complete_item\<lparr>title := []\<rparr>\<rparr>,
          callbackQuery = None, sent = [Plain ''what title do you want?'']\<rparr>"
proof -
  let ?full = "\<lparr>session = \<lparr>state = build, item = complete_item\<rparr>,
                callbackQuery = None, sent = []\<rparr>"
  let ?untitled = "\<lparr>session = \<lparr>state = build, item = complete_item\<lparr>title := []\<rparr>\<rparr>,
                    callbackQuery = None, sent = []\<rparr>"
  note empty = nextMissingField_order [of createNewItem general ?full, THEN conjunct1]
  note full = nextMissingField_order [of complete_item general ?full, THEN conjunct2,
      THEN conjunct2]
  note untitled = nextMissingField_order [of complete_item general ?untitled, THEN conjunct2,
      THEN conjunct2, THEN conjunct2, THEN conjunct2]
  show ?thesis
    using empty full untitled
    by (simp add: createNewItem_def complete_item_def the_item_def reply_def set_state_def)
qed

section \<open>Resolution of a link: shared facts\<close>

text \<open>The prompts that follow a field update never touch the draft.\<close>

lemma ensureLinkSet_item:
  "(\<And>c. the_item (f c) = the_item c) \<Longrightarrow> the_item (ensureLinkSet ctx f) = the_item ctx"
  by (simp add: ctx_defs)

lemma nextState_item: "the_item (nextState ctx) = the_item ctx"
  by (simp add: nextState_def handleSetTitle_def handleSetTaxonomy_def handleSetTag_def
      handleSetOption_def replyWithPreview_def displayMenu_def displayOptionMenu_def ctx_defs)

text \<open>When the page of the reading list can be read, the guard throws exactly when some
  row carries the very link.\<close>

lemma ensureNonDuplicateLink_page:
  "list_items w = Response st (Some rows) \<Longrightarrow>
   ensureNonDuplicateLink w lnk
     = (if Some lnk \<in> set rows then Some (Error ERROR_DUPLICATE_READ) else None)"
  by (auto simp: ensureNonDuplicateLink_def filter_empty_conv)

text \<open>
  The path on which the metadata service answers 200 and the guard finds no duplicate:
  title, description (cut to 497 characters and three dots when longer than 500) and
  image come from the metadata, the tags from the table, and the conversation goes on in
  \<open>build\<close>.
\<close>

lemma handleUpdateUrl_found:
  assumes "normalizeUrl (new_URL w) url = Inr cleanUrl"
    and "link_metadata w cleanUrl = Response 200 (Some metadata)"
    and "list_items w = Response st (Some rows)"
    and "Some cleanUrl \<notin> set rows"
  shows "handleUpdateUrl w url ctx =
     (nextState (set_state build (set_item
        (createNewItem
           \<lparr>link := cleanUrl,
            title := (case md_title metadata of Some t \<Rightarrow> t | None \<Rightarrow> []),
            tags := defaultTagsForUrl cleanUrl,
            description :=
              (case md_description metadata of
                 Some d \<Rightarrow> if length d > 500 then take 497 d @ ''...'' else d
               | None \<Rightarrow> []),
            image_url := (case md_image metadata of Some i \<Rightarrow> i | None \<Rightarrow> [])\<rparr>)
        (reply (Plain ''fetching that url, hang on a sec...'') (resetState ctx)))), None)"
proof -
  have "d \<noteq> [] \<and> 500 < length d \<longleftrightarrow> 500 < length d" for d :: string
    by auto
  then show ?thesis
    using assms
    by (simp add: handleUpdateUrl_def fetchUrlMetadata_def ensureNonDuplicateLink_page
        ctx_defs split: option.split)
qed

section \<open>Default tags\<close>

text \<open>The lookup walks the table in its order and stops at the first key that occurs in
  the link.\<close>

lemma defaultTagsForUrl_first:
  "defaultTagsForUrl url =
     (if str_includes ''bloomberg.com'' url then [news]
      else if str_includes ''medium.com'' url then [reads]
      else if str_includes ''spotify.com'' url then [podcast]
      else if str_includes ''x.com'' url then [tweets]
      else if str_includes ''youtube.com'' url then [media]
      else [])"
  by (simp add: defaultTagsForUrl_def defaultTagsForDomain_def)

text \<open>
  C10. The lookup of the default tag tests containment in the whole normalised link, not
  its host: a link that contains \<^verbatim>\<open>bloomberg.com\<close> anywhere gets the tag \<open>news\<close>, as
  \<^verbatim>\<open>https://example.com/bloomberg.com\<close> does; a link that contains a key of the table
  anywhere gets the tags of a key it contains (of that key, when it contains no other);
  and these are the tags that a resolution through the metadata service writes into the
  draft.
\<close>

theorem defaultTagsForUrl_substring:
  "defaultTagsForUrl (a @ ''bloomberg.com'' @ b) = [news]
   \<and> defaultTagsForUrl ''https://example.com/bloomberg.com'' = [news]
   \<and> ((domain, t) \<in> set defaultTagsForDomain \<and> url = a @ domain @ b \<longrightarrow>
        (\<exists>domain' t'. (domain', t') \<in> set defaultTagsForDomain \<and> str_includes domain' url
           \<and> defaultTagsForUrl url = t' \<and> t' \<noteq> []))
   \<and> ((domain, t) \<in> set defaultTagsForDomain \<and> url = a @ domain @ b
        \<and> (\<forall>other \<in> fst ` set defaultTagsForDomain. other \<noteq> domain \<longrightarrow> \<not> str_includes other url)
        \<longrightarrow> defaultTagsForUrl url = t)
   \<and> (normalizeUrl (new_URL w) raw = Inr url
        \<and> link_metadata w url = Response 200 (Some metadata)
        \<and> list_items w = Response st (Some rows) \<and> Some url \<notin> set rows \<longrightarrow>
        tags (the_item (fst (handleUpdateUrl w raw ctx))) = defaultTagsForUrl url)"
proof (intro conjI impI)
  have "str_includes ''bloomberg.com'' (a @ ''bloomberg.com'' @ b)"
    using str_includes_iff by blast
  then show "defaultTagsForUrl (a @ ''bloomberg.com'' @ b) = [news]"
    by (simp add: defaultTagsForUrl_first)
next
  show "defaultTagsForUrl ''https://example.com/bloomberg.com'' = [news]"
    by (simp add: defaultTagsForUrl_first startsWith_def)
next
  assume h: "(domain, t) \<in> set defaultTagsForDomain \<and> url = a @ domain @ b"
  then have inc: "str_includes domain url" using str_includes_iff by blast
  from h inc show "\<exists>domain' t'. (domain', t') \<in> set defaultTagsForDomain
      \<and> str_includes domain' url \<and> defaultTagsForUrl url = t' \<and> t' \<noteq> []"
    unfolding defaultTagsForUrl_first by (auto simp: defaultTagsForDomain_def)
next
  assume h: "(domain, t) \<in> set defaultTagsForDomain \<and> url = a @ domain @ b
        \<and> (\<forall>other \<in> fst ` set defaultTagsForDomain. other \<noteq> domain \<longrightarrow> \<not> str_includes other url)"
  then have inc: "str_includes domain url" using str_includes_iff by blast
  from h inc show "defaultTagsForUrl url = t"
    unfolding defaultTagsForUrl_first by (auto simp: defaultTagsForDomain_def)
next
  assume "normalizeUrl (new_URL w) raw = Inr url
        \<and> link_metadata w url = Response 200 (Some metadata)
        \<and> list_items w = Response st (Some rows) \<and> Some url \<notin> set rows"
  then show "tags (the_item (fst (handleUpdateUrl w raw ctx))) = defaultTagsForUrl url"
    by (simp add: handleUpdateUrl_found nextState_item) (simp add: ctx_defs)
qed


theorem defaultTagsForUrl_substring_witness:
  "(''bloomberg.com'', [news]) \<in> set defaultTagsForDomain
   \<and> ''https://example.com/bloomberg.com'' = ''https://example.com/'' @ ''bloomberg.com'' @ []
   \<and> \<not> str_includes ''medium.com'' ''https://example.com/bloomberg.com''
   \<and> \<not> str_includes ''spotify.com'' ''https://example.com/bloomberg.com''
   \<and> \<not> str_includes ''x.com'' ''https://example.com/bloomberg.com''
   \<and> \<not> str_includes ''youtube.com'' ''https://example.com/bloomberg.com''
   \<and> normalizeUrl (new_URL (found_world \<lparr>md_title = None, md_description = None, md_image = None\<rparr> []))
         ''https://example.com/bloomberg.com'' = Inr ''https://example.com/bloomberg.com''
   \<and> defaultTagsForUrl ''https://example.com/bloomberg.com'' = [news]
   \<and> tags (the_item (fst (handleUpdateUrl
          (found_world \<lparr>md_title = None, md_description = None, md_image = None\<rparr> [])
          ''https://example.com/bloomberg.com''
          \<lparr>session = waiting_session, callbackQuery = None, sent = []\<rparr>))) = [news]"
  using defaultTagsForUrl_substring [of "''https://example.com/''" "[]" "''bloomberg.com''" "[news]"
      "''https://example.com/bloomberg.com''"
      "found_world \<lparr>md_title = None, md_description = None, md_image = None\<rparr> []"
      "''https://example.com/bloomberg.com''"
      "\<lparr>md_title = None, md_description = None, md_image = None\<rparr>" 200 "[]"
      "\<lparr>session = waiting_session, callbackQuery = None, sent = []\<rparr>"]
  by (simp add: defaultTagsForDomain_def found_world_def normalizeUrl_def startsWith_def)

section \<open>URL normalisation\<close>

text \<open>
  The steps of \<open>normalizeUrl\<close>, for every raw string and every URL constructor: it
  prepends \<^verbatim>\<open>https://\<close> unless the input starts with \<^verbatim>\<open>http\<close>, rewrites
  \<^verbatim>\<open>http://\<close> to \<^verbatim>\<open>https://\<close>, rewrites \<^verbatim>\<open>vxtwitter.com\<close> and then \<^verbatim>\<open>twitter.com\<close>
  to \<^verbatim>\<open>x.com\<close> (the first occurrence of each), and, when the result contains
  \<^verbatim>\<open>x.com\<close>, parses it and keeps origin and path only, so that
  \<^verbatim>\<open>https://x.com/user/status/1?s=20\<close> becomes \<^verbatim>\<open>https://x.com/user/status/1\<close>.
\<close>

lemma normalizeUrl_steps:
  "(let a = (if startsWith ''http'' raw then raw else ''https://'' @ raw);
        b = replace ''http://'' ''https://'' a;
        c = replace ''vxtwitter.com'' ''x.com'' b;
        d = replace ''twitter.com'' ''x.com'' c
    in startsWith ''http'' a
       \<and> (startsWith ''http://'' raw \<longrightarrow> b = ''https://'' @ drop 7 raw)
       \<and> (\<not> str_includes ''x.com'' d \<longrightarrow> normalizeUrl mk raw = Inr d)
       \<and> (str_includes ''x.com'' d \<longrightarrow>
            normalizeUrl mk raw =
              (case mk d of
                 None \<Rightarrow> Inl (TypeError ''Invalid URL'')
               | Some u \<Rightarrow> Inr (origin u @ pathname u))))
   \<and> (mk ''https://x.com/user/status/1?s=20''
         = Some \<lparr>origin = ''https://x.com'', pathname = ''/user/status/1''\<rparr> \<longrightarrow>
       normalizeUrl mk ''https://x.com/user/status/1?s=20'' = Inr ''https://x.com/user/status/1'')"
proof -
  have a: "startsWith ''http'' (if startsWith ''http'' raw then raw else ''https://'' @ raw)"
    by (simp add: startsWith_def)
  have b: "replace ''http://'' ''https://'' raw = ''https://'' @ drop 7 raw"
    if "startsWith ''http://'' raw"
    using that replace_startsWith [of "''http://''" raw "''https://''"]
    by (simp add: eval_nat_numeral)
  have pre: "startsWith ''http'' raw" if "startsWith ''http://'' raw"
  proof -
    from that obtain r where "raw = ''http://'' @ r" using startsWith_iff by blast
    then show ?thesis by (simp add: startsWith_def)
  qed
  have ex: "normalizeUrl mk ''https://x.com/user/status/1?s=20'' = Inr ''https://x.com/user/status/1''"
    if "mk ''https://x.com/user/status/1?s=20''
         = Some \<lparr>origin = ''https://x.com'', pathname = ''/user/status/1''\<rparr>"
    using that by (simp add: normalizeUrl_def startsWith_def)
  show ?thesis
    using a b pre ex by (simp add: normalizeUrl_def Let_def)
qed

lemma normalizeUrl_steps_examples:
  "\<not> startsWith ''http'' ''bloomberg.com/a''
   \<and> \<not> str_includes ''x.com'' ''https://bloomberg.com/a''
   \<and> normalizeUrl simple_URL ''bloomberg.com/a'' = Inr ''https://bloomberg.com/a''
   \<and> startsWith ''http://'' ''http://twitter.com/a?b#c''
   \<and> str_includes ''x.com'' ''https://x.com/a?b#c''
   \<and> normalizeUrl simple_URL ''http://twitter.com/a?b#c'' = Inr ''https://x.com/a''
   \<and> simple_URL ''https://x.com/user/status/1?s=20''
         = Some \<lparr>origin = ''https://x.com'', pathname = ''/user/status/1''\<rparr>
   \<and> normalizeUrl simple_URL ''https://x.com/user/status/1?s=20'' = Inr ''https://x.com/user/status/1''"
  using normalizeUrl_steps [of "''bloomberg.com/a''" simple_URL]
    normalizeUrl_steps [of "''http://twitter.com/a?b#c''" simple_URL]
  by (simp add: startsWith_def simple_URL_def host_char_def path_char_def Let_def)

text \<open>
  C9. The claim is that \<open>normalizeUrl\<close> applies its four rewriting steps in order, that
  \<^verbatim>\<open>https://x.com/user/status/1?s=20\<close> becomes \<^verbatim>\<open>https://x.com/user/status/1\<close>, and
  that it is a pure string transform that never fails. The steps and the example are as
  claimed (\<open>normalizeUrl_steps\<close>), but the last step can throw. The input
  \<^verbatim>\<open>httpx.com\<close> starts with \<^verbatim>\<open>http\<close>, so nothing is prepended; it contains
  \<^verbatim>\<open>x.com\<close>, so it is parsed; it has no colon, hence no scheme, and the URL constructor
  throws. \<open>handleUpdateUrl\<close> calls the normaliser before its \<^verbatim>\<open>try\<close>: sent while the
  session waits for a link, this text resets the session, gets the reply that the link
  is being fetched and nothing more, and the exception leaves the handler, while every
  failure inside the \<^verbatim>\<open>try\<close> is caught and answered.
\<close>

theorem normalizeUrl_fails:
  "normalizeUrl simple_URL ''httpx.com'' = Inl (TypeError ''Invalid URL'')
   \<and> readsBot (fallback_world None) (Text ''httpx.com'') waiting_session
       = (\<lparr>session = createDefaultSession, callbackQuery = None,
           sent = [Plain ''fetching that url, hang on a sec...'']\<rparr>,
          Some (TypeError ''Invalid URL''))"
proof
  show norm: "normalizeUrl simple_URL ''httpx.com'' = Inl (TypeError ''Invalid URL'')"
    by (simp add: normalizeUrl_def simple_URL_def startsWith_def)
  have "readsBot (fallback_world None) (Text ''httpx.com'') waiting_session
      = handleUpdateUrl (fallback_world None) ''httpx.com''
          \<lparr>session = waiting_session, callbackQuery = None, sent = []\<rparr>"
    by (simp add: on_text_def waiting_session_def startsWith_def)
  also have "\<dots> = (\<lparr>session = createDefaultSession, callbackQuery = None,
           sent = [Plain ''fetching that url, hang on a sec...'']\<rparr>,
          Some (TypeError ''Invalid URL''))"
    using norm
    by (simp add: handleUpdateUrl_def fallback_world_def ctx_defs createDefaultSession_def
        waiting_session_def)
  finally show "readsBot (fallback_world None) (Text ''httpx.com'') waiting_session
       = (\<lparr>session = createDefaultSession, callbackQuery = None,
           sent = [Plain ''fetching that url, hang on a sec...'']\<rparr>,
          Some (TypeError ''Invalid URL''))" .
qed

section \<open>Publishing\<close>

text \<open>The status of the storage service's response decides how \<open>postRead\<close> ends.\<close>

lemma postRead_status:
  assumes "callbackQuery ctx = Some q"
    and "create_read w (the_item ctx) (from_username q) = Response status body"
  shows "postRead w ctx =
     (reply (Plain ''Attempting to publish...'') ctx,
      if status = 403 then Some (Error ERROR_UNAUTHORIZED)
      else if status = 409 then Some (Error ERROR_DUPLICATE_READ)
      else if status > 201 then Some (Error ERROR_UNKNOWN)
      else None)"
  using assms by (simp add: postRead_def ctx_defs)

lemma error_names_distinct:
  "ERROR_UNAUTHORIZED \<noteq> ERROR_DUPLICATE_READ" "ERROR_UNKNOWN \<noteq> ERROR_UNAUTHORIZED"
  "ERROR_UNKNOWN \<noteq> ERROR_DUPLICATE_READ"
  by (simp_all add: ERROR_UNAUTHORIZED_def ERROR_DUPLICATE_READ_def ERROR_UNKNOWN_def)

text \<open>
  The publish button. When it is pressed on a draft whose link is set and the storage
  service answers, \<open>postRead\<close> maps the status of the response: 403 to
  \<^verbatim>\<open>ERROR_UNAUTHORIZED\<close>, 409 to \<^verbatim>\<open>ERROR_DUPLICATE_READ\<close>, every other status above 201
  to \<^verbatim>\<open>ERROR_UNKNOWN\<close> (the answers 202 to 299 among them), and 201 or less to success.
  On success and on the duplicate the user is told and the draft is reset with the state
  \<open>none\<close>; on the authorisation failure and on the unknown failure the user is told and
  the session is left as it was, so that publishing can be tried again.
\<close>

lemma publish_outcomes:
  assumes "link (item s) \<noteq> []"
    and "create_read w (item s) (from_username q) = Response status body"
  shows "snd (postRead w \<lparr>session = s, callbackQuery = Some q, sent = []\<rparr>)
           = (if status = 403 then Some (Error ERROR_UNAUTHORIZED)
              else if status = 409 then Some (Error ERROR_DUPLICATE_READ)
              else if status > 201 then Some (Error ERROR_UNKNOWN)
              else None)
    \<and> readsBot w (Action (named cmd_publish) q) s =
         (if status = 403 then
            \<lparr>session = s, callbackQuery = Some q,
             sent = [Plain ''Attempting to publish...'',
                     Plain ''Unauthorized: reach out to engineering for assistance.'']\<rparr>
          else if status = 409 then
            \<lparr>session = createDefaultSession, callbackQuery = Some q,
             sent = [Plain ''Attempting to publish...'',
                     Plain ''Oops, this item was already added recently.'']\<rparr>
          else if status > 201 then
            \<lparr>session = s, callbackQuery = Some q,
             sent = [Plain ''Attempting to publish...'',
                     Plain ''Oops, something went wrong - try to /publish again or start over with /new'']\<rparr>
          else
            \<lparr>session = createDefaultSession, callbackQuery = Some q,
             sent = [Plain ''Attempting to publish...'',
                     Plain ''Item has been published. Paste another URL to start over.'']\<rparr>,
          None)"
proof -
  let ?ctx = "\<lparr>session = s, callbackQuery = Some q, sent = []\<rparr>"
  have pr: "postRead w ?ctx =
     (reply (Plain ''Attempting to publish...'') ?ctx,
      if status = 403 then Some (Error ERROR_UNAUTHORIZED)
      else if status = 409 then Some (Error ERROR_DUPLICATE_READ)
      else if status > 201 then Some (Error ERROR_UNKNOWN)
      else None)"
    using assms(2) by (intro postRead_status) (simp_all add: the_item_def)
  have hp: "handlePost w ?ctx =
      (case postRead w ?ctx of
         (ctx, None) \<Rightarrow>
           reply (Plain ''Item has been published. Paste another URL to start over.'')
             (resetState ctx)
       | (ctx, Some e) \<Rightarrow>
           if message e = ERROR_UNAUTHORIZED
           then reply (Plain ''Unauthorized: reach out to engineering for assistance.'') ctx
           else if message e = ERROR_DUPLICATE_READ
           then resetState (reply (Plain ''Oops, this item was already added recently.'') ctx)
           else reply (Plain
             ''Oops, something went wrong - try to /publish again or start over with /new'') ctx)"
    using assms(1) by (simp add: handlePost_def ensureLinkSet_def the_item_def)
  show ?thesis
    unfolding readsBot.simps on_action.simps hp pr
    using error_names_distinct
    by (simp add: reply_def resetState_def set_item_def set_state_def createDefaultSession_def)
qed


lemma publish_outcomes_examples:
  "link (item \<lparr>state = build, item = complete_item\<rparr>) \<noteq> []
   \<and> create_read (storage_world (Response 403 None)) complete_item (Some ''analyst'')
       = Response 403 None
   \<and> readsBot (storage_world (Response 403 None))
         (Action (named cmd_publish) \<lparr>from_username = Some ''analyst''\<rparr>)
         \<lparr>state = build, item = complete_item\<rparr>
       = (\<lparr>session = \<lparr>state = build, item = complete_item\<rparr>,
           callbackQuery = Some \<lparr>from_username = Some ''analyst''\<rparr>,
           sent = [Plain ''Attempting to publish...'',
                   Plain ''Unauthorized: reach out to engineering for assistance.'']\<rparr>, None)
   \<and> readsBot (storage_world (Response 409 None))
         (Action (named cmd_publish) \<lparr>from_username = Some ''analyst''\<rparr>)
         \<lparr>state = build, item = complete_item\<rparr>
       = (\<lparr>session = createDefaultSession,
           callbackQuery = Some \<lparr>from_username = Some ''analyst''\<rparr>,
           sent = [Plain ''Attempting to publish...'',
                   Plain ''Oops, this item was already added recently.'']\<rparr>, None)
   \<and> readsBot (storage_world (Response 500 None))
         (Action (named cmd_publish) \<lparr>from_username = Some ''analyst''\<rparr>)
         \<lparr>state = build, item = complete_item\<rparr>
       = (\<lparr>session = \<lparr>state = build, item = complete_item\<rparr>,
           callbackQuery = Some \<lparr>from_username = Some ''analyst''\<rparr>,
           sent = [Plain ''Attempting to publish...'',
                   Plain ''Oops, something went wrong - try to /publish again or start over with /new'']\<rparr>,
          None)
   \<and> readsBot (storage_world (Response 201 None))
         (Action (named cmd_publish) \<lparr>from_username = Some ''analyst''\<rparr>)
         \<lparr>state = build, item = complete_item\<rparr>
       = (\<lparr>session = createDefaultSession,
           callbackQuery = Some \<lparr>from_username = Some ''analyst''\<rparr>,
           sent = [Plain ''Attempting to publish...'',
                   Plain ''Item has been published. Paste another URL to start over.'']\<rparr>, None)"
  using publish_outcomes [of "\<lparr>state = build, item = complete_item\<rparr>"
      "storage_world (Response 403 None)" "\<lparr>from_username = Some ''analyst''\<rparr>" 403 None]
    publish_outcomes [of "\<lparr>state = build, item = complete_item\<rparr>"
      "storage_world (Response 409 None)" "\<lparr>from_username = Some ''analyst''\<rparr>" 409 None]
    publish_outcomes [of "\<lparr>state = build, item = complete_item\<rparr>"
      "storage_world (Response 500 None)" "\<lparr>from_username = Some ''analyst''\<rparr>" 500 None]
    publish_outcomes [of "\<lparr>state = build, item = complete_item\<rparr>"
      "storage_world (Response 201 None)" "\<lparr>from_username = Some ''analyst''\<rparr>" 201 None]
  by (simp add: storage_world_def complete_item_def)

text \<open>
  Two more ways through \<open>handlePost\<close>, both ending like the unknown failure. When the
  request itself fails, its exception carries none of the three messages. When publish
  arrives as a typed command the update has no callback query, \<open>postRead\<close> throws before
  it sends anything, and the storage service is never asked.
\<close>

lemma publish_network_error:
  assumes "link (item s) \<noteq> []"
    and "create_read w (item s) (from_username q) = NetworkError"
  shows "readsBot w (Action (named cmd_publish) q) s =
     (\<lparr>session = s, callbackQuery = Some q,
       sent = [Plain ''Attempting to publish...'',
               Plain ''Oops, something went wrong - try to /publish again or start over with /new'']\<rparr>,
      None)"
  using assms
  by (simp add: handlePost_def postRead_def ctx_defs ERROR_UNAUTHORIZED_def
      ERROR_DUPLICATE_READ_def)

lemma publish_command_no_callback:
  assumes "link (item s) \<noteq> []"
  shows "readsBot w (Command cmd_publish) s =
     (\<lparr>session = s, callbackQuery = None,
       sent = [Plain ''Oops, something went wrong - try to /publish again or start over with /new'']\<rparr>,
      None)"
  using assms
  by (simp add: handlePost_def postRead_def ctx_defs ERROR_UNAUTHORIZED_def
      ERROR_DUPLICATE_READ_def)

text \<open>
  C1. The claim is that, whenever publish is invoked on a draft whose link is set, the
  status of the storage service's response is mapped to an outcome (403 to Unauthorized,
  409 to DuplicateLink, any other failure to Unknown) and the session follows: reset on
  success and on the duplicate, unchanged otherwise. The button does that
  (\<open>publish_outcomes\<close>). The typed command is registered with the same handler but
  never gets as far as the request: on a complete draft, with a storage service that
  would answer 201, it replies that something went wrong and leaves the draft and the
  state as they were, where the button on the same draft publishes and resets.
\<close>

theorem publish_command_fails:
  "link (item \<lparr>state = build, item = complete_item\<rparr>) \<noteq> []
   \<and> create_read (storage_world (Response 201 None)) complete_item None = Response 201 None
   \<and> readsBot (storage_world (Response 201 None)) (Command cmd_publish)
         \<lparr>state = build, item = complete_item\<rparr>
       = (\<lparr>session = \<lparr>state = build, item = complete_item\<rparr>, callbackQuery = None,
           sent = [Plain ''Oops, something went wrong - try to /publish again or start over with /new'']\<rparr>,
          None)
   \<and> readsBot (storage_world (Response 201 None))
         (Action (named cmd_publish) \<lparr>from_username = None\<rparr>)
         \<lparr>state = build, item = complete_item\<rparr>
       = (\<lparr>session = createDefaultSession,
           callbackQuery = Some \<lparr>from_username = None\<rparr>,
           sent = [Plain ''Attempting to publish...'',
                   Plain ''Item has been published. Paste another URL to start over.'']\<rparr>, None)"
proof -
  have linked: "link (item \<lparr>state = build, item = complete_item\<rparr>) \<noteq> []"
    by (simp add: complete_item_def)
  have answer: "create_read (storage_world (Response 201 None))
      (item \<lparr>state = build, item = complete_item\<rparr>) (from_username \<lparr>from_username = None\<rparr>)
      = Response 201 None"
    by (simp add: storage_world_def)
  show ?thesis
    using linked publish_command_no_callback [OF linked, of "storage_world (Response 201 None)"]
      publish_outcomes [OF linked answer]
    by (simp add: storage_world_def)
qed

text \<open>
  An answer between 202 and 299 is above the threshold of \<open>postRead\<close> and ends as the
  unknown failure: the draft and the state are kept.
\<close>

lemma publish_accepted_is_unknown:
  "readsBot (storage_world (Response 204 None))
     (Action (named cmd_publish) \<lparr>from_username = None\<rparr>)
     \<lparr>state = build, item = complete_item\<rparr>
   = (\<lparr>session = \<lparr>state = build, item = complete_item\<rparr>,
       callbackQuery = Some \<lparr>from_username = None\<rparr>,
       sent = [Plain ''Attempting to publish...'',
               Plain ''Oops, something went wrong - try to /publish again or start over with /new'']\<rparr>,
      None)"
proof -
  have linked: "link (item \<lparr>state = build, item = complete_item\<rparr>) \<noteq> []"
    by (simp add: complete_item_def)
  have answer: "create_read (storage_world (Response 204 None))
      (item \<lparr>state = build, item = complete_item\<rparr>) (from_username \<lparr>from_username = None\<rparr>)
      = Response 204 None"
    by (simp add: storage_world_def)
  show ?thesis
    using publish_outcomes [OF linked answer] by simp
qed

section \<open>Resolution of a link: the duplicate guard\<close>

text \<open>
  C2. When the metadata service answers 200 for the normalised link, the duplicate guard
  runs before anything of the metadata is written into the draft: if some row of the
  first page of the reading list carries exactly this link, the user is told that the
  link was added already, the draft is reset and the state is \<open>none\<close>.
\<close>

theorem resolve_duplicate:
  assumes "normalizeUrl (new_URL w) url = Inr cleanUrl"
    and "link_metadata w cleanUrl = Response 200 (Some metadata)"
    and "list_items w = Response st (Some rows)"
    and "Some cleanUrl \<in> set rows"
  shows "handleUpdateUrl w url ctx =
     (ctx\<lparr>session := createDefaultSession,
          sent := sent ctx @ [Plain ''fetching that url, hang on a sec...'',
                              Plain ''Oops, this url was recently added already'']\<rparr>, None)"
  using assms
  by (simp add: handleUpdateUrl_def fetchUrlMetadata_def ensureNonDuplicateLink_page ctx_defs
      createDefaultSession_def)

theorem resolve_duplicate_witness:
  "normalizeUrl (new_URL (found_world \<lparr>md_title = Some ''A'', md_description = None, md_image = None\<rparr>
       [None, Some ''https://bloomberg.com/a''])) ''bloomberg.com/a'' = Inr ''https://bloomberg.com/a''
   \<and> Some ''https://bloomberg.com/a'' \<in> set [None, Some ''https://bloomberg.com/a'']
   \<and> handleUpdateUrl (found_world \<lparr>md_title = Some ''A'', md_description = None, md_image = None\<rparr>
         [None, Some ''https://bloomberg.com/a'']) ''bloomberg.com/a''
         \<lparr>session = waiting_session, callbackQuery = None, sent = []\<rparr>
       = (\<lparr>session = createDefaultSession, callbackQuery = None,
           sent = [Plain ''fetching that url, hang on a sec...'',
                   Plain ''Oops, this url was recently added already'']\<rparr>, None)"
  using resolve_duplicate [of "found_world \<lparr>md_title = Some ''A'', md_description = None, md_image = None\<rparr>
       [None, Some ''https://bloomberg.com/a'']" "''bloomberg.com/a''" "''https://bloomberg.com/a''"
      "\<lparr>md_title = Some ''A'', md_description = None, md_image = None\<rparr>" 200
      "[None, Some ''https://bloomberg.com/a'']"
      "\<lparr>session = waiting_session, callbackQuery = None, sent = []\<rparr>"]
  by (simp add: found_world_def normalizeUrl_def startsWith_def)

section \<open>Resolution of a link: the summary fallback\<close>

text \<open>No failure of the metadata request looks like a duplicate.\<close>

lemma fetchUrlMetadata_not_duplicate:
  "fetchUrlMetadata w u = Inl e \<Longrightarrow> message e \<noteq> ERROR_DUPLICATE_READ"
  by (auto simp: fetchUrlMetadata_def ERROR_DUPLICATE_READ_def
      split: fetched.splits if_splits option.splits)

text \<open>
  Whenever the \<^verbatim>\<open>try\<close> ends with an exception other than the duplicate (the metadata
  request failed, or the guard could not read the reading list), the completion service
  is asked for a summary of the link.
\<close>

lemma handleUpdateUrl_fallback:
  assumes "normalizeUrl (new_URL w) url = Inr cleanUrl"
    and "(\<exists>e. fetchUrlMetadata w cleanUrl = Inl e)
         \<or> (\<exists>e. ensureNonDuplicateLink w cleanUrl = Some e \<and> message e \<noteq> ERROR_DUPLICATE_READ)"
  shows "handleUpdateUrl w url ctx =
     (case chat_completion w cleanUrl of
        Some summary \<Rightarrow>
          (nextState (set_state build (set_item
             (createNewItem\<lparr>link := cleanUrl, description := summary, title := cleanUrl\<rparr>)
             (reply (Plain ''fetching that url, hang on a sec...'') (resetState ctx)))), None)
      | None \<Rightarrow>
          (handleNew (reply (Plain ''sorry, I could not fetch that url'')
             (set_item (createNewItem\<lparr>link := cleanUrl\<rparr>)
                (reply (Plain ''fetching that url, hang on a sec...'') (resetState ctx)))), None))"
proof (cases "fetchUrlMetadata w cleanUrl")
  case (Inl e)
  then have "message e \<noteq> ERROR_DUPLICATE_READ" by (rule fetchUrlMetadata_not_duplicate)
  then show ?thesis
    using assms(1) Inl
    by (simp add: handleUpdateUrl_def fetchUrlSummary_def ctx_defs createNewItem_def
        split: option.split)
next
  case (Inr metadata)
  then obtain e where "ensureNonDuplicateLink w cleanUrl = Some e"
    and "message e \<noteq> ERROR_DUPLICATE_READ"
    using assms(2) by auto
  then show ?thesis
    using assms(1) Inr
    by (simp add: handleUpdateUrl_def fetchUrlSummary_def ctx_defs createNewItem_def
        split: option.split)
qed

lemma nextState_build_with_title:
  "title (the_item ctx) = link (the_item ctx) \<Longrightarrow> taxonomy (the_item ctx) = [] \<Longrightarrow>
   state (session (nextState (set_state build ctx))) = build"
  by (simp add: nextState_def handleSetTitle_def handleSetTaxonomy_def handleSetOption_def
      displayOptionMenu_def ctx_defs)

text \<open>
  C3, amended. When the metadata cannot be had for a reason other than a duplicate, the
  resolver asks for a generated summary of the link. If the summary arrives, the draft
  keeps the normalised link, its description is the summary (stated here for a summary
  of at most 500 characters), its title is the normalised link, its image and its sector
  stay empty, and the conversation goes on in \<open>build\<close>. If the summary fails too, the
  user is told that the link could not be fetched and the session behaves as after the
  new command: empty draft, state \<open>await_url\<close>, prompt for a link.
\<close>

theorem resolve_fallback:
  assumes "normalizeUrl (new_URL w) url = Inr cleanUrl"
    and "(\<exists>e. fetchUrlMetadata w cleanUrl = Inl e)
         \<or> (\<exists>e. ensureNonDuplicateLink w cleanUrl = Some e \<and> message e \<noteq> ERROR_DUPLICATE_READ)"
  shows "(chat_completion w cleanUrl = Some summary \<longrightarrow>
            link (the_item (fst (handleUpdateUrl w url ctx))) = cleanUrl
            \<and> title (the_item (fst (handleUpdateUrl w url ctx))) = cleanUrl
            \<and> image_url (the_item (fst (handleUpdateUrl w url ctx))) = []
            \<and> taxonomy (the_item (fst (handleUpdateUrl w url ctx))) = []
            \<and> (length summary \<le> 500 \<longrightarrow>
                  description (the_item (fst (handleUpdateUrl w url ctx))) = summary)
            \<and> state (session (fst (handleUpdateUrl w url ctx))) = build
            \<and> snd (handleUpdateUrl w url ctx) = None)
       \<and> (chat_completion w cleanUrl = None \<longrightarrow>
            handleUpdateUrl w url ctx =
              (ctx\<lparr>session := \<lparr>state = await_url, item = createNewItem\<rparr>,
                   sent := sent ctx @ [Plain ''fetching that url, hang on a sec...'',
                                       Plain ''sorry, I could not fetch that url'',
                                       Plain ''what url do you want post?'']\<rparr>, None))"
proof (intro conjI impI)
  assume ok: "chat_completion w cleanUrl = Some summary"
  let ?c = "set_item (createNewItem\<lparr>link := cleanUrl, description := summary, title := cleanUrl\<rparr>)
             (reply (Plain ''fetching that url, hang on a sec...'') (resetState ctx))"
  have res: "handleUpdateUrl w url ctx = (nextState (set_state build ?c), None)"
    using handleUpdateUrl_fallback [OF assms] ok by simp
  have it: "the_item (fst (handleUpdateUrl w url ctx))
      = createNewItem\<lparr>link := cleanUrl, description := summary, title := cleanUrl\<rparr>"
    unfolding res by (simp add: nextState_item) (simp add: ctx_defs)
  show "link (the_item (fst (handleUpdateUrl w url ctx))) = cleanUrl"
    and "title (the_item (fst (handleUpdateUrl w url ctx))) = cleanUrl"
    and "image_url (the_item (fst (handleUpdateUrl w url ctx))) = []"
    and "taxonomy (the_item (fst (handleUpdateUrl w url ctx))) = []"
    and "description (the_item (fst (handleUpdateUrl w url ctx))) = summary"
    unfolding it by (simp_all add: createNewItem_def)
  have "title (the_item ?c) = link (the_item ?c)" and "taxonomy (the_item ?c) = []"
    by (simp_all add: ctx_defs createNewItem_def)
  then show "state (session (fst (handleUpdateUrl w url ctx))) = build"
    unfolding res using nextState_build_with_title by simp
  show "snd (handleUpdateUrl w url ctx) = None"
    unfolding res by simp
next
  assume "chat_completion w cleanUrl = None"
  then show "handleUpdateUrl w url ctx =
      (ctx\<lparr>session := \<lparr>state = await_url, item = createNewItem\<rparr>,
           sent := sent ctx @ [Plain ''fetching that url, hang on a sec...'',
                               Plain ''sorry, I could not fetch that url'',
                               Plain ''what url do you want post?'']\<rparr>, None)"
    using handleUpdateUrl_fallback [OF assms] by (simp add: handleNew_def ctx_defs)
qed

text \<open>
  A run of the fallback: the session waits for a link, the user sends
  \<^verbatim>\<open>bloomberg.com/a\<close>, the metadata service answers 404 and the completion service
  answers with a summary.
\<close>

lemma fallback_world_run:
  "the_item (fst (readsBot (fallback_world (Some summary)) (Text ''bloomberg.com/a'')
      waiting_session))
   = createNewItem\<lparr>link := ''https://bloomberg.com/a'', description := summary,
                    title := ''https://bloomberg.com/a''\<rparr>"
proof -
  let ?w = "fallback_world (Some summary)"
  have norm: "normalizeUrl (new_URL ?w) ''bloomberg.com/a'' = Inr ''https://bloomberg.com/a''"
    by (simp add: normalizeUrl_def startsWith_def)
  have fail: "(\<exists>e. fetchUrlMetadata ?w ''https://bloomberg.com/a'' = Inl e)
      \<or> (\<exists>e. ensureNonDuplicateLink ?w ''https://bloomberg.com/a'' = Some e
            \<and> message e \<noteq> ERROR_DUPLICATE_READ)"
    by (simp add: fetchUrlMetadata_def fallback_world_def)
  have "readsBot ?w (Text ''bloomberg.com/a'') waiting_session
      = handleUpdateUrl ?w ''bloomberg.com/a''
          \<lparr>session = waiting_session, callbackQuery = None, sent = []\<rparr>"
    by (simp add: on_text_def waiting_session_def startsWith_def)
  then show ?thesis
    unfolding handleUpdateUrl_fallback [OF norm fail]
    by (simp add: fallback_world_def nextState_item) (simp add: ctx_defs)
qed

text \<open>
  The claim C3 as stated says that the fallback populates the description only, with no
  title. In the run above the title of the draft is the normalised link.
\<close>

theorem fallback_sets_title:
  "title (the_item (fst (readsBot (fallback_world (Some ''A summary.'')) (Text ''bloomberg.com/a'')
      waiting_session))) = ''https://bloomberg.com/a''"
  unfolding fallback_world_run by (simp add: createNewItem_def)

text \<open>
  C4. The claim is that every description obtained during resolution, from the metadata
  service or from the summary fallback, is stored cut to 497 characters and three dots
  when it is longer than 500. The metadata path does that (\<open>handleUpdateUrl_found\<close>);
  the fallback path stores the summary as it comes: in the run above with a summary of
  501 characters the stored description has 501 characters.
\<close>

theorem fallback_description_not_truncated:
  "description (the_item (fst (readsBot (fallback_world (Some (replicate 501 CHR ''a'')))
      (Text ''bloomberg.com/a'') waiting_session))) = replicate 501 CHR ''a''
   \<and> length (description (the_item (fst (readsBot (fallback_world (Some (replicate 501 CHR ''a'')))
      (Text ''bloomberg.com/a'') waiting_session)))) = 501"
  unfolding fallback_world_run by (simp add: createNewItem_def)

text \<open>
  C5. The claim is that the tags are seeded from the table on every successful
  resolution path. The metadata path does that (\<open>handleUpdateUrl_found\<close>); the
  fallback path leaves the tags empty: in the run above the link contains
  \<^verbatim>\<open>bloomberg.com\<close>, whose default tag is \<open>news\<close>, and the draft has no tag.
\<close>

theorem fallback_tags_not_seeded:
  "tags (the_item (fst (readsBot (fallback_world (Some ''A summary.'')) (Text ''bloomberg.com/a'')
      waiting_session))) = []
   \<and> defaultTagsForUrl ''https://bloomberg.com/a'' = [news]"
  unfolding fallback_world_run
  by (simp add: createNewItem_def defaultTagsForUrl_first startsWith_def)

theorem resolve_fallback_witness:
  "normalizeUrl (new_URL (fallback_world (Some ''A summary.''))) ''bloomberg.com/a''
     = Inr ''https://bloomberg.com/a''
   \<and> fetchUrlMetadata (fallback_world (Some ''A summary.'')) ''https://bloomberg.com/a''
     = Inl (Error ''fetch url metadata error'')
   \<and> description (the_item (fst (handleUpdateUrl (fallback_world (Some ''A summary.''))
        ''bloomberg.com/a'' \<lparr>session = waiting_session, callbackQuery = None, sent = []\<rparr>)))
     = ''A summary.''
   \<and> state (session (fst (handleUpdateUrl (fallback_world (Some ''A summary.''))
        ''bloomberg.com/a'' \<lparr>session = waiting_session, callbackQuery = None, sent = []\<rparr>)))
     = build
   \<and> normalizeUrl (new_URL (fallback_world None)) ''bloomberg.com/a''
     = Inr ''https://bloomberg.com/a''
   \<and> fetchUrlMetadata (fallback_world None) ''https://bloomberg.com/a''
     = Inl (Error ''fetch url metadata error'')
   \<and> handleUpdateUrl (fallback_world None) ''bloomberg.com/a''
        \<lparr>session = waiting_session, callbackQuery = None, sent = []\<rparr>
     = (\<lparr>session = \<lparr>state = await_url, item = createNewItem\<rparr>, callbackQuery = None,
         sent = [Plain ''fetching that url, hang on a sec...'',
                 Plain ''sorry, I could not fetch that url'',
                 Plain ''what url do you want post?'']\<rparr>, None)"
  using resolve_fallback [of "fallback_world (Some ''A summary.'')" "''bloomberg.com/a''"
      "''https://bloomberg.com/a''" "''A summary.''"
      "\<lparr>session = waiting_session, callbackQuery = None, sent = []\<rparr>"]
    resolve_fallback [of "fallback_world None" "''bloomberg.com/a''"
      "''https://bloomberg.com/a''" "''A summary.''"
      "\<lparr>session = waiting_session, callbackQuery = None, sent = []\<rparr>"]
  by (simp add: fallback_world_def normalizeUrl_def startsWith_def fetchUrlMetadata_def)

section \<open>Text in the state \<open>await_description\<close>\<close>

text \<open>Entering \<open>build\<close> keeps the draft and asks for the title when it is missing.\<close>

lemma nextBuildState_item: "the_item (nextBuildState ctx) = the_item ctx"
  by (simp add: nextBuildState_def nextState_item) (simp add: ctx_defs)

lemma nextBuildState_state:
  "state (session (nextBuildState ctx))
     = (if title (the_item ctx) = [] \<and> link (the_item ctx) \<noteq> [] then await_title else build)"
  by (simp add: nextBuildState_def nextState_def handleSetTitle_def handleSetTaxonomy_def
      handleSetTag_def handleSetOption_def replyWithPreview_def displayMenu_def
      displayOptionMenu_def ctx_defs)

text \<open>
  The route of a text message: the trigger \<^verbatim>\<open>state\<close> first, then the pattern of a link,
  then the text handler.
\<close>

lemma readsBot_text_route:
  "readsBot w (Text txt) s =
     (if txt = ''state''
      then (\<lparr>session = s, callbackQuery = None, sent = [Dump s]\<rparr>, None)
      else if startsWith ''http:'' txt \<or> startsWith ''https:'' txt
      then handleUpdateUrl w txt \<lparr>session = s, callbackQuery = None, sent = []\<rparr>
      else on_text w txt \<lparr>session = s, callbackQuery = None, sent = []\<rparr>)"
  by (simp add: reply_def Let_def)

text \<open>
  C6. When the text handler receives a text in the state \<open>await_description\<close>: a text of
  more than 500 characters is rejected, the user is told so and prompted again (for the
  description when the link is set, as it is in every session the bot can reach in this
  state), and the session is unchanged; any other text
  becomes the description of the draft, the literal \<^verbatim>\<open>none\<close> standing for the empty
  description, nothing else in the draft changes, and the session enters \<open>build\<close>
  again, which asks for the title when the draft has none. (A text that starts with
  \<^verbatim>\<open>http:\<close> or \<^verbatim>\<open>https:\<close> never reaches the text handler: \<open>readsBot\<close> resolves it as
  a link in every state.)
\<close>

theorem description_text:
  assumes "state (session ctx) = await_description"
  shows "(length txt > 500 \<longrightarrow>
            on_text w txt ctx =
              (ctx\<lparr>sent := sent ctx @
                  [Plain ''sorry, that description too long'',
                   if link (the_item ctx) = [] then Plain ''send me a link first''
                   else Plain ''what description do you want? type \"none\" for no description'']\<rparr>,
               None))
       \<and> (length txt \<le> 500 \<longrightarrow>
            on_text w txt ctx =
              (nextBuildState (set_item
                 ((the_item ctx)\<lparr>description := (if txt = ''none'' then [] else txt)\<rparr>) ctx), None)
            \<and> the_item (fst (on_text w txt ctx))
                = (the_item ctx)\<lparr>description := (if txt = ''none'' then [] else txt)\<rparr>
            \<and> state (session (fst (on_text w txt ctx)))
                = (if title (the_item ctx) = [] \<and> link (the_item ctx) \<noteq> []
                   then await_title else build))"
proof (intro conjI impI)
  assume "length txt > 500"
  then show "on_text w txt ctx =
      (ctx\<lparr>sent := sent ctx @
          [Plain ''sorry, that description too long'',
           if link (the_item ctx) = [] then Plain ''send me a link first''
           else Plain ''what description do you want? type \"none\" for no description'']\<rparr>,
       None)"
    using assms
    by (simp add: on_text_def handleUpdateDescription_def handleSetDescription_def ctx_defs)
next
  assume short: "length txt \<le> 500"
  let ?c = "set_item ((the_item ctx)\<lparr>description := (if txt = ''none'' then [] else txt)\<rparr>) ctx"
  show run: "on_text w txt ctx = (nextBuildState ?c, None)"
    using assms short by (simp add: on_text_def handleUpdateDescription_def)
  have it: "the_item ?c = (the_item ctx)\<lparr>description := (if txt = ''none'' then [] else txt)\<rparr>"
    by (simp add: ctx_defs)
  show "the_item (fst (on_text w txt ctx))
      = (the_item ctx)\<lparr>description := (if txt = ''none'' then [] else txt)\<rparr>"
    unfolding run by (simp add: nextBuildState_item it)
  show "state (session (fst (on_text w txt ctx)))
      = (if title (the_item ctx) = [] \<and> link (the_item ctx) \<noteq> [] then await_title else build)"
    unfolding run by (simp add: nextBuildState_state it)
qed

theorem description_text_witness:
  "state (session \<lparr>session = \<lparr>state = await_description, item = complete_item\<rparr>,
                    callbackQuery = None, sent = []\<rparr>) = await_description
   \<and> length (replicate 501 CHR ''a'') > 500
   \<and> on_text (fallback_world None) (replicate 501 CHR ''a'')
        \<lparr>session = \<lparr>state = await_description, item = complete_item\<rparr>,
         callbackQuery = None, sent = []\<rparr>
      = (\<lparr>session = \<lparr>state = await_description, item = complete_item\<rparr>,
          callbackQuery = None,
          sent = [Plain ''sorry, that description too long'',
                  Plain ''what description do you want? type \"none\" for no description'']\<rparr>,
         None)
   \<and> length ''A description'' \<le> 500
   \<and> the_item (fst (on_text (fallback_world None) ''A description''
        \<lparr>session = \<lparr>state = await_description, item = complete_item\<rparr>,
         callbackQuery = None, sent = []\<rparr>))
      = complete_item\<lparr>description := ''A description''\<rparr>
   \<and> state (session (fst (on_text (fallback_world None) ''A description''
        \<lparr>session = \<lparr>state = await_description, item = complete_item\<rparr>,
         callbackQuery = None, sent = []\<rparr>))) = build
   \<and> the_item (fst (on_text (fallback_world None) ''none''
        \<lparr>session = \<lparr>state = await_description, item = complete_item\<rparr>,
         callbackQuery = None, sent = []\<rparr>))
      = complete_item\<lparr>description := []\<rparr>"
proof -
  let ?ctx = "\<lparr>session = \<lparr>state = await_description, item = complete_item\<rparr>,
         callbackQuery = None, sent = []\<rparr>"
  let ?w = "fallback_world None"
  have st: "state (session ?ctx) = await_description"
    by simp
  have long: "length (replicate 501 CHR ''a'') > 500" and short: "length ''A description'' \<le> 500"
    and short': "length ''none'' \<le> 500"
    by simp_all
  note rejected = description_text [OF st, of "replicate 501 CHR ''a''" ?w, THEN conjunct1,
      rule_format, OF long]
  note stored = description_text [OF st, of "''A description''" ?w, THEN conjunct2,
      rule_format, OF short, THEN conjunct2]
  note cleared = description_text [OF st, of "''none''" ?w, THEN conjunct2,
      rule_format, OF short', THEN conjunct2, THEN conjunct1]
  show ?thesis
    using rejected stored cleared by (simp add: the_item_def complete_item_def)
qed

section \<open>The session invariant\<close>

text \<open>The normalised link is never empty.\<close>

lemma replace_nonempty: "s \<noteq> [] \<Longrightarrow> rep \<noteq> [] \<Longrightarrow> replace pat rep s \<noteq> []"
  by (cases s) auto

lemma normalizeUrl_nonempty:
  assumes "URL_nonempty mkURL" and "normalizeUrl mkURL raw = Inr cleanUrl"
  shows "cleanUrl \<noteq> []"
proof -
  let ?a = "if \<not> startsWith ''http'' raw then ''https://'' @ raw else raw"
  let ?d = "replace ''twitter.com'' ''x.com''
              (replace ''vxtwitter.com'' ''x.com'' (replace ''http://'' ''https://'' ?a))"
  have "?a \<noteq> []" by (auto simp: startsWith_def)
  then have d: "?d \<noteq> []" by (intro replace_nonempty) simp_all
  show ?thesis
  proof (cases "str_includes ''x.com'' ?d")
    case True
    then show ?thesis
      using assms unfolding normalizeUrl_def URL_nonempty_def Let_def
      by (auto split: option.splits)
  next
    case False
    then show ?thesis
      using assms(2) d unfolding normalizeUrl_def Let_def by auto
  qed
qed

text \<open>Every handler keeps the invariant.\<close>

lemma link_invariant_link: "link (the_item c) \<noteq> [] \<Longrightarrow> link_invariant (session c)"
  by (simp add: link_invariant_def the_item_def)

lemma nextState_link_invariant:
  assumes "link_invariant (session c)"
  shows "link_invariant (session (nextState c))"
proof (cases "link (the_item c) = []")
  case True
  then have "state (session c) \<noteq> build"
    using assms by (auto simp: link_invariant_def the_item_def)
  then show ?thesis using assms by (simp add: nextState_def)
next
  case False
  then have "link (the_item (nextState c)) \<noteq> []" by (simp add: nextState_item)
  then show ?thesis by (rule link_invariant_link)
qed

lemma handleUpdateUrl_link_invariant:
  assumes "URL_nonempty (new_URL w)"
  shows "link_invariant (session (fst (handleUpdateUrl w url ctx)))"
proof (cases "normalizeUrl (new_URL w) url")
  case (Inl e)
  then show ?thesis
    by (simp add: handleUpdateUrl_def link_invariant_def ctx_defs)
next
  case (Inr cleanUrl)
  then have ne: "cleanUrl \<noteq> []" using assms normalizeUrl_nonempty by blast
  have build: "link_invariant (session (nextState (set_state build c)))"
    if "link (the_item c) = cleanUrl" for c
  proof -
    have "link (the_item (nextState (set_state build c))) \<noteq> []"
      using that ne by (simp add: nextState_item) (simp add: ctx_defs)
    then show ?thesis by (rule link_invariant_link)
  qed
  have reset: "link_invariant (session (resetState c))" for c
    by (simp add: link_invariant_def ctx_defs)
  have new: "link_invariant (session (handleNew c))" for c
    by (simp add: link_invariant_def handleNew_def ctx_defs)
  have fallback: ?thesis
    if "(\<exists>e. fetchUrlMetadata w cleanUrl = Inl e)
         \<or> (\<exists>e. ensureNonDuplicateLink w cleanUrl = Some e \<and> message e \<noteq> ERROR_DUPLICATE_READ)"
    unfolding handleUpdateUrl_fallback [OF Inr that]
    by (cases "chat_completion w cleanUrl") (simp_all add: new, rule build, simp add: ctx_defs)
  show ?thesis
  proof (cases "fetchUrlMetadata w cleanUrl")
    case (Inl e)
    then show ?thesis using fallback by blast
  next
    case metadata: (Inr metadata)
    show ?thesis
    proof (cases "ensureNonDuplicateLink w cleanUrl")
      case None
      show ?thesis
        using Inr metadata None
        by (simp add: handleUpdateUrl_def Let_def) (rule build, simp add: ctx_defs)
    next
      case (Some e)
      show ?thesis
      proof (cases "message e = ERROR_DUPLICATE_READ")
        case True
        then show ?thesis
          using Inr metadata Some by (simp add: handleUpdateUrl_def Let_def reset)
      next
        case False
        then show ?thesis using fallback Some by blast
      qed
    qed
  qed
qed

lemma ensureLinkSet_link_invariant:
  assumes "link_invariant (session c)"
    and "\<And>c'. link (the_item c') \<noteq> [] \<Longrightarrow> link_invariant (session (f c'))"
  shows "link_invariant (session (ensureLinkSet c f))"
  using assms by (simp add: ensureLinkSet_def reply_def)

lemma handlePost_link_invariant:
  "link_invariant (session c) \<Longrightarrow> link_invariant (session (handlePost w c))"
  unfolding handlePost_def
  by (rule ensureLinkSet_link_invariant)
     (auto simp: postRead_def link_invariant_def ctx_defs Let_def
       split: option.splits fetched.splits prod.splits if_splits)

lemma on_command_link_invariant:
  assumes "link_invariant (session c)"
  shows "link_invariant (session (on_command w cmd c))"
proof (cases cmd)
  case cmd_publish
  then show ?thesis using assms by (simp add: handlePost_link_invariant)
next
  case cmd_new
  then show ?thesis by (simp add: link_invariant_def handleNew_def ctx_defs)
qed (use assms in \<open>auto simp: link_invariant_def handleHelp_def replyWithPreview_def
      displayMenu_def handleSetDescription_def handleSetTitle_def handleSetTag_def
      handleSetTaxonomy_def handleSetOption_def displayOptionMenu_def ctx_defs\<close>)

lemma on_action_link_invariant:
  assumes "link_invariant (session c)"
  shows "link_invariant (session (on_action w a c))"
proof (cases a)
  case (named cmd)
  show ?thesis
  proof (cases cmd)
    case cmd_publish
    then show ?thesis using assms named by (simp add: handlePost_link_invariant)
  next
    case cmd_new
    then show ?thesis using named by (simp add: link_invariant_def handleNew_def ctx_defs)
  qed (use assms named in \<open>auto simp: link_invariant_def handleHelp_def
        handleSetDescription_def handleSetTitle_def handleSetTag_def
        handleSetTaxonomy_def handleSetOption_def displayOptionMenu_def ctx_defs\<close>)
next
  case (setsector_slug slug)
  have "link_invariant (session (set_item ((the_item c)\<lparr>taxonomy := [slug]\<rparr>) c))"
    using assms by (simp add: link_invariant_def ctx_defs)
  then show ?thesis using setsector_slug by (simp add: nextState_link_invariant)
next
  case (settype_slug slug)
  have "link_invariant (session (set_item ((the_item c)\<lparr>tags := [slug]\<rparr>) c))"
    using assms by (simp add: link_invariant_def ctx_defs)
  then show ?thesis using settype_slug by (simp add: nextState_link_invariant)
qed

lemma nextBuildState_link_invariant:
  assumes "link (the_item c) \<noteq> []"
  shows "link_invariant (session (nextBuildState c))"
proof -
  have "link (the_item (nextBuildState c)) \<noteq> []"
    using assms by (simp add: nextBuildState_item)
  then show ?thesis by (rule link_invariant_link)
qed

lemma on_text_link_invariant:
  assumes "URL_nonempty (new_URL w)" and "link_invariant (session c)"
  shows "link_invariant (session (fst (on_text w txt c)))"
proof -
  have link: "link (the_item c) \<noteq> []"
    if "state (session c) = await_description \<or> state (session c) = await_title"
    using that assms(2) by (auto simp: link_invariant_def the_item_def)
  have descr: "link_invariant (session (handleUpdateDescription txt c))"
    if "state (session c) = await_description"
  proof (cases "length txt > 500")
    case True
    then show ?thesis
      using that link by (simp add: handleUpdateDescription_def handleSetDescription_def
          link_invariant_def ctx_defs)
  next
    case False
    have "link (the_item (set_item
        ((the_item c)\<lparr>description := (if txt = ''none'' then [] else txt)\<rparr>) c)) \<noteq> []"
      using link that by (simp add: ctx_defs)
    then show ?thesis
      using False by (simp add: handleUpdateDescription_def nextBuildState_link_invariant)
  qed
  have ttl: "link_invariant (session (handleUpdateTitle txt c))"
    if "state (session c) = await_title"
  proof -
    have "link (the_item (set_item ((the_item c)\<lparr>title := txt\<rparr>) c)) \<noteq> []"
      using link that by (simp add: ctx_defs)
    then show ?thesis
      by (simp add: handleUpdateTitle_def nextBuildState_link_invariant)
  qed
  have other: "link_invariant (session (reply m c))" for m
    using assms(2) by (simp add: reply_def)
  show ?thesis
    unfolding on_text_def
    using handleUpdateUrl_link_invariant [OF assms(1)] descr ttl other by simp
qed

text \<open>
  The default session satisfies the invariant and every update keeps it. So in every
  session that the bot can reach, the state \<open>await_description\<close> comes with a link, and
  a description that is too long is answered with the prompt for the description.
\<close>

lemma link_invariant_initially: "link_invariant createDefaultSession"
  by (simp add: link_invariant_def createDefaultSession_def)

lemma readsBot_link_invariant:
  assumes "URL_nonempty (new_URL w)" and "link_invariant s"
  shows "link_invariant (session (fst (readsBot w u s)))"
proof (cases u)
  case (Command cmd)
  then show ?thesis using assms(2) by (simp add: on_command_link_invariant)
next
  case (Action a q)
  then show ?thesis using assms(2) by (simp add: on_action_link_invariant)
next
  case (Text msg)
  have "link_invariant (session \<lparr>session = s, callbackQuery = None, sent = []\<rparr>)"
    using assms(2) by simp
  then show ?thesis
    using Text handleUpdateUrl_link_invariant [OF assms(1)] on_text_link_invariant [OF assms(1)]
    by (simp add: reply_def Let_def)
qed

lemma awaiting_description_has_link:
  "link_invariant s \<Longrightarrow> state s = await_description \<Longrightarrow> link (item s) \<noteq> []"
  by (auto simp: link_invariant_def)

lemma simple_URL_nonempty: "URL_nonempty simple_URL"
  by (auto simp: URL_nonempty_def simple_URL_def Let_def split: if_splits)

lemma description_too_long_reprompt:
  assumes "link_invariant (session ctx)" and "state (session ctx) = await_description"
    and "length txt > 500"
  shows "on_text w txt ctx =
     (ctx\<lparr>sent := sent ctx @
         [Plain ''sorry, that description too long'',
          Plain ''what description do you want? type \"none\" for no description'']\<rparr>, None)"
proof -
  have "link (the_item ctx) \<noteq> []"
    using assms(1,2) awaiting_description_has_link by (simp add: the_item_def)
  then show ?thesis
    using assms(2,3)
    by (simp add: on_text_def handleUpdateDescription_def handleSetDescription_def ctx_defs)
qed

section \<open>The link guard\<close>

text \<open>
  Six of the commands, typed or pressed, go through \<open>ensureLinkSet\<close>: on a draft without
  a link they answer with the request for a link and change nothing.
\<close>

lemma guarded_commands:
  assumes "link (item s) = []"
    and "c \<in> {cmd_publish, cmd_help, cmd_settitle, cmd_setdescription, cmd_settype,
               cmd_setsector}"
  shows "readsBot w (Command c) s =
     (\<lparr>session = s, callbackQuery = None, sent = [Plain ''send me a link first'']\<rparr>, None)"
  using assms
  by (auto simp: handlePost_def handleHelp_def handleSetTitle_def handleSetDescription_def
      handleSetTag_def handleSetTaxonomy_def handleSetOption_def ctx_defs)

lemma guarded_actions:
  assumes "link (item s) = []"
    and "c \<in> {cmd_publish, cmd_help, cmd_settitle, cmd_setdescription, cmd_settype,
               cmd_setsector}"
  shows "readsBot w (Action (named c) q) s =
     (\<lparr>session = s, callbackQuery = Some q, sent = [Plain ''send me a link first'']\<rparr>, None)"
  using assms
  by (auto simp: handlePost_def handleHelp_def handleSetTitle_def handleSetDescription_def
      handleSetTag_def handleSetTaxonomy_def handleSetOption_def ctx_defs)

text \<open>
  C7. The claim is that publish, help, preview, settitle, setdescription, settype and
  setsector all ask for a link first when the draft has none. The preview command is
  registered with \<open>replyWithPreview\<close> itself, which has no guard: on the default session,
  whose draft has no link, it sends the preview and the action menu.
\<close>

theorem preview_command_unguarded:
  "link (item createDefaultSession) = []
   \<and> readsBot w (Command cmd_preview) createDefaultSession =
      (\<lparr>session = createDefaultSession, callbackQuery = None,
        sent = [Preview createDefaultSession,
                Keyboard ''What would you like to do?''
                  [[(''Set Title'', ''settitle''), (''Set Description'', ''setdescription'')],
                   [(''Set Type'', ''settype''), (''Set Sector'', ''setsector'')],
                   [(''Start Over'', ''new''), (''Help'', ''help'')],
                   [(''Publish It!'', ''publish'')]]]\<rparr>, None)"
  by (simp add: replyWithPreview_def displayMenu_def reply_def createDefaultSession_def
      createNewItem_def)

end
